theory Spec2Isabelle
  imports Main
begin

section \<open>Data model: the rows of the structured store\<close>

text \<open>
  The pages of SPC Campus Connect talk to a hosted store through its query client. A row
  is a JavaScript object; the model keeps the columns that the modelled handlers read or
  write. Identifiers (uuids), names, e-mail addresses and department codes are strings,
  timestamps are natural numbers (a point in time), a nullable column is an option.

  The column \<open>id\<close> is called \<open>row_id\<close> here, since \<open>id\<close> is the identity function of HOL.
  A row of \<open>super_admins\<close> is a \<open>profile\<close>; a row of \<open>admins\<close> adds the approval columns;
  a row of \<open>users\<close> adds the \<open>role\<close> column written by the sign-up of a student.
\<close>

record profile =
  row_id :: string
  name :: string
  email :: string
  department :: string
  created_at :: nat

record governed = profile +
  is_approved :: bool
  approved_by :: "string option"
  approved_at :: "nat option"

record user_row = governed +
  role :: string

record post_row =
  post_id :: string
  title :: string
  content :: string
  post_type :: string
  post_department :: string
  author_id :: string
  event_date :: "string option"
  status :: string
  post_created_at :: nat

record comment_row =
  comment_id :: string
  comment_post_id :: string
  comment_user_id :: string
  comment_content :: string
  comment_created_at :: nat

record db =
  super_admins :: "profile list"
  admins :: "governed list"
  users :: "user_row list"
  posts :: "post_row list"
  comments :: "comment_row list"

subsection \<open>The query client\<close>

text \<open>
  \<open>.eq(column, value)\<close> keeps the rows whose column has the value. \<open>.maybeSingle()\<close> and
  \<open>.single()\<close> turn the selected rows into the pair \<open>{data, error}\<close>: \<open>maybeSingle\<close> gives
  the row when exactly one row is selected, \<open>null\<close> without an error when none is, and
  \<open>null\<close> with an error when several are; \<open>single\<close> also answers an error when no row is
  selected. A read is always answered; the reply of the store to a write is a parameter
  of the handler that issues it (\<open>None\<close>: the write was applied).
\<close>

definition eq :: "('r \<Rightarrow> 'v) \<Rightarrow> 'v \<Rightarrow> 'r list \<Rightarrow> 'r list" where
  "eq column v rows = filter (\<lambda>r. column r = v) rows"

fun maybeSingle :: "'r list \<Rightarrow> 'r option \<times> string option" where
  "maybeSingle [] = (None, None)"
| "maybeSingle [r] = (Some r, None)"
| "maybeSingle rows = (None, Some ''JSON object requested, multiple (or no) rows returned'')"

fun single :: "'r list \<Rightarrow> 'r option \<times> string option" where
  "single [r] = (Some r, None)"
| "single rows = (None, Some ''JSON object requested, multiple (or no) rows returned'')"

text \<open>
  \<open>.order(column, { ascending: false })\<close>. The store does not fix the order of rows with
  equal values; the model takes one such order.
\<close>

definition order_desc :: "('r \<Rightarrow> nat) \<Rightarrow> 'r list \<Rightarrow> 'r list" where
  "order_desc column rows = rev (sort_key column rows)"

text \<open>Descending order on a nullable column puts the rows without a value first.\<close>

definition order_desc_nullable :: "('r \<Rightarrow> nat option) \<Rightarrow> 'r list \<Rightarrow> 'r list" where
  "order_desc_nullable column rows =
     filter (\<lambda>r. column r = None) rows
     @ order_desc (\<lambda>r. the (column r)) (filter (\<lambda>r. column r \<noteq> None) rows)"

text \<open>The column \<open>id\<close> is the key of a table: no two rows of it share an id.\<close>

definition keyed :: "('a profile_scheme) list \<Rightarrow> bool" where
  "keyed rows = distinct (map row_id rows)"

section \<open>Landing page: \<open>handleLogin\<close>\<close>

datatype tier = super_admin | admin | user

text \<open>
  What the login handler tells its caller: the early return on missing credentials, the
  error of the identity provider, an admission (the tier of the branch taken and the path
  it navigates to), the pending-approval message, or the account-not-found message.
\<close>

datatype login_outcome =
    MissingCredentials
  | AuthError string
  | Admitted tier string
  | PendingApproval
  | AccountNotFound

record loginData =
  login_email :: string
  login_password :: string

text \<open>
  \<open>signIn\<close> is the reply of \<open>signInWithPassword\<close>: an error message or the id of the
  authenticated account. The second component of the result is the session afterwards:
  a successful sign-in establishes it, \<open>signOut\<close> removes it.
\<close>

definition handleLogin ::
  "loginData \<Rightarrow> string + string \<Rightarrow> db \<Rightarrow> string option \<Rightarrow> login_outcome \<times> string option" where
  "handleLogin ld signIn d session =
     (if login_email ld = [] \<or> login_password ld = [] then (MissingCredentials, session)
      else case signIn of
        Inl e \<Rightarrow> (AuthError e, session)
      | Inr uid \<Rightarrow>
          (case fst (maybeSingle (eq row_id uid (super_admins d))) of
             Some superAdmin \<Rightarrow> (Admitted super_admin ''/super-admin-dashboard'', Some uid)
           | None \<Rightarrow>
               (case fst (maybeSingle (eq row_id uid (admins d))) of
                  Some adminProfile \<Rightarrow>
                    (if \<not> is_approved adminProfile then (PendingApproval, None)
                     else (Admitted admin ''/dashboard'', Some uid))
                | None \<Rightarrow>
                    (case fst (maybeSingle (eq row_id uid (users d))) of
                       Some userProfile \<Rightarrow>
                         (if \<not> is_approved userProfile then (PendingApproval, None)
                          else (Admitted user ''/dashboard'', Some uid))
                     | None \<Rightarrow> (AccountNotFound, None)))))"

section \<open>Landing page: \<open>handleSignup\<close>\<close>

text \<open>
  \<open>toLowerCase\<close>, character by character. A character of the model is a code point below
  256. Among these the upper-case letters are \<open>A\<close> to \<open>Z\<close> (65 to 90) and the accented
  capitals 192 to 222 without the multiplication sign 215; each has its lower-case letter
  32 places further on, and every other character is left as it is.
\<close>

definition lower_char :: "char \<Rightarrow> char" where
  "lower_char c =
     (let n = (of_char c :: nat) in
      if (65 \<le> n \<and> n \<le> 90) \<or> (192 \<le> n \<and> n \<le> 222 \<and> n \<noteq> 215)
      then char_of (n + 32) else c)"

definition toLowerCase :: "string \<Rightarrow> string" where
  "toLowerCase s = map lower_char s"









section \<open>Program-head dashboard: listing, approve, reject, revoke\<close>

text \<open>
  What a handler of a page shows when it is done: \<open>toast.success\<close> or \<open>toast.error\<close> with
  its message, or nothing when the handler returns on a declined dialog.
\<close>

datatype toast = ToastSuccess string | ToastError string | NoToast

text \<open>\<open>.update(values).eq(column, v)\<close> and \<open>.delete().eq(column, v)\<close> on a table.\<close>

definition update_where :: "('r \<Rightarrow> 'r) \<Rightarrow> ('r \<Rightarrow> 'v) \<Rightarrow> 'v \<Rightarrow> 'r list \<Rightarrow> 'r list" where
  "update_where values column v rows = map (\<lambda>r. if column r = v then values r else r) rows"

definition delete_where :: "('r \<Rightarrow> 'v) \<Rightarrow> 'v \<Rightarrow> 'r list \<Rightarrow> 'r list" where
  "delete_where column v rows = filter (\<lambda>r. column r \<noteq> v) rows"

text \<open>
  The state of the page: the profile stored by \<open>checkSuperAdmin\<close> and the two lists. The
  buttons that call the handlers are rendered only after \<open>checkSuperAdmin\<close> has stored the
  profile and \<open>fetchUsers\<close> has run, so \<open>superAdmin\<close> is a profile whenever a handler runs.
\<close>

record dashboard =
  superAdmin :: profile
  pendingUsers :: "user_row list"
  approvedUsers :: "user_row list"

definition fetchUsers :: "string \<Rightarrow> db \<Rightarrow> dashboard \<Rightarrow> dashboard" where
  "fetchUsers dept d dash =
     dash\<lparr>pendingUsers :=
            order_desc created_at (eq is_approved False (eq department dept (users d))),
          approvedUsers :=
            order_desc_nullable approved_at (eq is_approved True (eq department dept (users d)))\<rparr>"

text \<open>
  \<open>reply\<close> is the reply of the store to the write; \<open>now\<close> is the clock read by
  \<open>new Date()\<close>; \<open>confirmReject\<close> and \<open>confirmRevoke\<close> are the answers to \<open>window.confirm\<close>.
\<close>

definition handleApprove ::
  "string \<Rightarrow> string \<Rightarrow> nat \<Rightarrow> string option \<Rightarrow> db \<Rightarrow> dashboard \<Rightarrow> toast \<times> db \<times> dashboard" where
  "handleApprove userId userName now reply d dash =
     (case reply of
        Some e \<Rightarrow> (ToastError ''Failed to approve user'', d, dash)
      | None \<Rightarrow>
          (let d' = d\<lparr>users := update_where
                      (\<lambda>r. r\<lparr>is_approved := True,
                              approved_by := Some (row_id (superAdmin dash)),
                              approved_at := Some now\<rparr>)
                      row_id userId (users d)\<rparr>
           in (ToastSuccess (userName @ '' has been approved!''), d',
               fetchUsers (department (superAdmin dash)) d' dash)))"

definition handleReject ::
  "string \<Rightarrow> string \<Rightarrow> bool \<Rightarrow> string option \<Rightarrow> db \<Rightarrow> dashboard \<Rightarrow> toast \<times> db \<times> dashboard" where
  "handleReject userId userName confirmReject reply d dash =
     (if \<not> confirmReject then (NoToast, d, dash)
      else case reply of
        Some e \<Rightarrow> (ToastError ''Failed to reject user'', d, dash)
      | None \<Rightarrow>
          (let d' = d\<lparr>users := delete_where row_id userId (users d)\<rparr>
           in (ToastSuccess (userName @ '' has been rejected and removed''), d',
               fetchUsers (department (superAdmin dash)) d' dash)))"

definition handleRevokeApproval ::
  "string \<Rightarrow> string \<Rightarrow> bool \<Rightarrow> string option \<Rightarrow> db \<Rightarrow> dashboard \<Rightarrow> toast \<times> db \<times> dashboard" where
  "handleRevokeApproval userId userName confirmRevoke reply d dash =
     (if \<not> confirmRevoke then (NoToast, d, dash)
      else case reply of
        Some e \<Rightarrow> (ToastError ''Failed to revoke approval'', d, dash)
      | None \<Rightarrow>
          (let d' = d\<lparr>users := update_where
                      (\<lambda>r. r\<lparr>is_approved := False, approved_by := None, approved_at := None\<rparr>)
                      row_id userId (users d)\<rparr>
           in (ToastSuccess (''Approval revoked for '' @ userName), d',
               fetchUsers (department (superAdmin dash)) d' dash)))"

text \<open>
  A visit to the page is a sequence of clicks: a reload of the lists, or one of the three
  buttons with the answers of the dialog, the clock and the store.
\<close>

datatype click =
    Refresh
  | Approve string string nat "string option"
  | Reject string string bool "string option"
  | Revoke string string bool "string option"

fun click_step :: "click \<Rightarrow> db \<times> dashboard \<Rightarrow> db \<times> dashboard" where
  "click_step Refresh (d, dash) = (d, fetchUsers (department (superAdmin dash)) d dash)"
| "click_step (Approve userId userName now reply) (d, dash) =
     snd (handleApprove userId userName now reply d dash)"
| "click_step (Reject userId userName confirmed reply) (d, dash) =
     snd (handleReject userId userName confirmed reply d dash)"
| "click_step (Revoke userId userName confirmed reply) (d, dash) =
     snd (handleRevokeApproval userId userName confirmed reply d dash)"

fun clicks :: "click list \<Rightarrow> db \<times> dashboard \<Rightarrow> db \<times> dashboard" where
  "clicks [] s = s"
| "clicks (c # cs) s = clicks cs (click_step c s)"


section \<open>Admin Panel: \<open>checkAuth\<close>, \<open>handleCreatePost\<close>, \<open>handleEditPost\<close>\<close>

text \<open>
  What \<open>checkAuth\<close> leaves behind: the profile stored by \<open>setUserProfile\<close> (initially
  \<open>null\<close>) and the path given to \<open>navigate\<close>, if any. \<open>getSession\<close> is the reply of the
  identity provider: an error, or the id of the session's account, if there is a session.
\<close>

record panel =
  userProfile :: "user_row option"
  navigate :: "string option"

definition checkAuth :: "string + string option \<Rightarrow> db \<Rightarrow> panel" where
  "checkAuth getSession d =
     (case getSession of
        Inl e \<Rightarrow> \<lparr>userProfile = None, navigate = Some ''/''\<rparr>
      | Inr None \<Rightarrow> \<lparr>userProfile = None, navigate = Some ''/''\<rparr>
      | Inr (Some uid) \<Rightarrow>
          (case single (eq row_id uid (users d)) of
             (_, Some profileError) \<Rightarrow> \<lparr>userProfile = None, navigate = Some ''/''\<rparr>
           | (None, None) \<Rightarrow> \<lparr>userProfile = None, navigate = Some ''/''\<rparr>
           | (Some profile, None) \<Rightarrow>
               (if role profile \<noteq> ''admin''
                then \<lparr>userProfile = None, navigate = Some ''/dashboard''\<rparr>
                else \<lparr>userProfile = Some profile, navigate = None\<rparr>)))"

record formData =
  form_title :: string
  form_content :: string
  form_type :: string
  form_event_date :: string

text \<open>
  Reading a property of \<open>null\<close> throws a \<open>TypeError\<close> inside \<open>try\<close>, before the write is
  sent; the \<open>catch\<close> block shows its message. \<open>gen\<close> holds the id and the creation time
  that the store gives the new row.
\<close>

text \<open>The row that the insert of \<open>handleCreatePost\<close> adds to \<open>posts\<close>.\<close>

definition new_post :: "formData \<Rightarrow> user_row \<Rightarrow> string \<times> nat \<Rightarrow> post_row" where
  "new_post fd p gen =
     \<lparr>post_id = fst gen,
      title = form_title fd,
      content = form_content fd,
      post_type = form_type fd,
      post_department = department p,
      author_id = row_id p,
      event_date = (if form_type fd = ''event'' then Some (form_event_date fd) else None),
      status = ''active'',
      post_created_at = snd gen\<rparr>"

definition handleCreatePost ::
  "formData \<Rightarrow> user_row option \<Rightarrow> string \<times> nat \<Rightarrow> string option \<Rightarrow> db \<Rightarrow> toast \<times> db" where
  "handleCreatePost fd profile gen reply d =
     (if form_title fd = [] \<or> form_content fd = []
      then (ToastError ''Title and content are required'', d)
      else if form_type fd = ''event'' \<and> form_event_date fd = []
      then (ToastError ''Event date is required for events'', d)
      else case profile of
        None \<Rightarrow> (ToastError ''Cannot read properties of null (reading 'department')'', d)
      | Some p \<Rightarrow>
          (case reply of
             Some e \<Rightarrow> (ToastError e, d)
           | None \<Rightarrow>
               (ToastSuccess ''Post created successfully!'',
                d\<lparr>posts := posts d @ [new_post fd p gen]\<rparr>)))"

text \<open>The columns that the update of \<open>handleEditPost\<close> writes into a row.\<close>

definition edited_post :: "formData \<Rightarrow> post_row \<Rightarrow> post_row" where
  "edited_post fd r =
     r\<lparr>title := form_title fd,
       content := form_content fd,
       post_type := form_type fd,
       event_date := (if form_type fd = ''event'' then Some (form_event_date fd) else None)\<rparr>"

definition handleEditPost ::
  "formData \<Rightarrow> post_row option \<Rightarrow> string option \<Rightarrow> db \<Rightarrow> toast \<times> db" where
  "handleEditPost fd editingPost reply d =
     (if form_title fd = [] \<or> form_content fd = []
      then (ToastError ''Title and content are required'', d)
      else if form_type fd = ''event'' \<and> form_event_date fd = []
      then (ToastError ''Event date is required for events'', d)
      else case editingPost of
        None \<Rightarrow> (ToastError ''Cannot read properties of null (reading 'id')'', d)
      | Some ep \<Rightarrow>
          (case reply of
             Some e \<Rightarrow> (ToastError e, d)
           | None \<Rightarrow>
               (ToastSuccess ''Post updated successfully!'',
                d\<lparr>posts := update_where (edited_post fd) post_id (post_id ep) (posts d)\<rparr>)))"

text \<open>The rule of the data model: a post has an event date exactly when it is an event.\<close>

definition event_date_rule :: "post_row \<Rightarrow> bool" where
  "event_date_rule p = ((event_date p \<noteq> None) = (post_type p = ''event''))"

section \<open>Dashboard and Archive: \<open>fetchPosts\<close>\<close>

text \<open>
  A fetched post is the row with the embedded author (\<open>name\<close>, \<open>department\<close> of the row
  that \<open>author_id\<close> refers to, \<open>null\<close> if there is none) and the number of its comments.
\<close>

record post_view = post_row +
  author :: "(string \<times> string) option"
  comment_count :: nat

definition embed_author :: "('a profile_scheme) list \<Rightarrow> post_row \<Rightarrow> (string \<times> string) option" where
  "embed_author rows p =
     map_option (\<lambda>r. (name r, department r)) (find (\<lambda>r. row_id r = author_id p) rows)"

definition with_comments :: "db \<Rightarrow> (post_row \<Rightarrow> (string \<times> string) option) \<Rightarrow> post_row \<Rightarrow> post_view" where
  "with_comments d embedded p =
     post_row.extend p
       (post_view.fields (embedded p) (length (eq comment_post_id (post_id p) (comments d))))"

text \<open>The feed of the Dashboard: \<open>fetchPosts\<close> and the effect that computes \<open>filteredPosts\<close>.\<close>

definition Dashboard_fetchPosts :: "db \<Rightarrow> post_view list" where
  "Dashboard_fetchPosts d =
     map (with_comments d (embed_author (users d)))
       (order_desc post_created_at (eq status ''active'' (posts d)))"

definition filteredPosts :: "string \<Rightarrow> post_view list \<Rightarrow> post_view list" where
  "filteredPosts selectedDepartment ps =
     (if selectedDepartment = ''all'' then ps
      else filter (\<lambda>post. post_department post = selectedDepartment) ps)"

text \<open>
  The Archive page: \<open>checkAuth\<close> finds the kind of the viewer in the three tables, in the
  order of the login; \<open>fetchPosts\<close> runs once profile and kind are stored.
\<close>

record archive =
  archive_profile :: "profile option"
  userType :: "tier option"
  archive_navigate :: "string option"

definition Archive_checkAuth :: "string + string option \<Rightarrow> db \<Rightarrow> archive" where
  "Archive_checkAuth getSession d =
     (case getSession of
        Inl e \<Rightarrow> \<lparr>archive_profile = None, userType = None, archive_navigate = Some ''/''\<rparr>
      | Inr None \<Rightarrow> \<lparr>archive_profile = None, userType = None, archive_navigate = Some ''/''\<rparr>
      | Inr (Some uid) \<Rightarrow>
          (case fst (maybeSingle (eq row_id uid (super_admins d))) of
             Some superAdminRow \<Rightarrow>
               \<lparr>archive_profile = Some (profile.truncate superAdminRow),
                 userType = Some super_admin, archive_navigate = None\<rparr>
           | None \<Rightarrow>
               (case fst (maybeSingle (eq row_id uid (admins d))) of
                  Some adminRow \<Rightarrow>
                    \<lparr>archive_profile = Some (profile.truncate adminRow),
                      userType = Some admin, archive_navigate = None\<rparr>
                | None \<Rightarrow>
                    (case fst (maybeSingle (eq row_id uid (users d))) of
                       Some regularUser \<Rightarrow>
                         \<lparr>archive_profile = Some (profile.truncate regularUser),
                           userType = Some user, archive_navigate = None\<rparr>
                     | None \<Rightarrow>
                         \<lparr>archive_profile = None, userType = None,
                           archive_navigate = Some ''/''\<rparr>))))"

definition Archive_fetchPosts :: "tier \<Rightarrow> profile \<Rightarrow> db \<Rightarrow> post_view list" where
  "Archive_fetchPosts ut p d =
     (let query = eq status ''archived'' (posts d);
          query = (if ut = admin then eq author_id (row_id p) query
                   else if ut = user then eq post_department (department p) query
                   else query)
      in map (with_comments d (embed_author (admins d))) (order_desc post_created_at query))"

section \<open>Post page: \<open>handleAddComment\<close>\<close>

text \<open>
  \<open>trim\<close> removes the white space at both ends of a string. Among the characters of the
  model these are tab, line feed, vertical tab, form feed, carriage return, space and the
  no-break space.
\<close>

definition is_space :: "char \<Rightarrow> bool" where
  "is_space c = ((of_char c :: nat) \<in> {9, 10, 11, 12, 13, 32, 160})"

definition trim :: "string \<Rightarrow> string" where
  "trim s = rev (dropWhile is_space (rev (dropWhile is_space s)))"

text \<open>The row that the insert of \<open>handleAddComment\<close> adds to \<open>comments\<close>.\<close>

definition new_comment :: "string \<Rightarrow> string \<Rightarrow> user_row \<Rightarrow> string \<times> nat \<Rightarrow> comment_row" where
  "new_comment newComment pid p gen =
     \<lparr>comment_id = fst gen,
      comment_post_id = pid,
      comment_user_id = row_id p,
      comment_content = trim newComment,
      comment_created_at = snd gen\<rparr>"

definition handleAddComment ::
  "string \<Rightarrow> string \<Rightarrow> user_row option \<Rightarrow> string \<times> nat \<Rightarrow> string option \<Rightarrow> db \<Rightarrow> toast \<times> db" where
  "handleAddComment newComment pid profile gen reply d =
     (if trim newComment = [] then (ToastError ''Comment cannot be empty'', d)
      else case profile of
        None \<Rightarrow> (ToastError ''Cannot read properties of null (reading 'id')'', d)
      | Some p \<Rightarrow>
          (case reply of
             Some e \<Rightarrow> (ToastError e, d)
           | None \<Rightarrow>
               (ToastSuccess ''Comment added successfully!'',
                d\<lparr>comments := comments d @ [new_comment newComment pid p gen]\<rparr>)))"

section \<open>An example store\<close>

text \<open>
  One program head (CCS), an approved and a pending admin, four rows of \<open>users\<close> (one of
  them with the role \<open>admin\<close>), two active and two archived posts and one comment: the
  concrete store on which the handlers are run.
\<close>

definition campus :: db where
  "campus =
     \<lparr>super_admins =
        [\<lparr>row_id = ''h1'', name = ''Head'', email = ''ccs-head@spc.edu'', department = ''CCS'',
          created_at = 1\<rparr>],
      admins =
        [\<lparr>row_id = ''a1'', name = ''Ana'', email = ''ccs-admin@spc.edu'', department = ''CCS'',
          created_at = 2, is_approved = True, approved_by = Some ''h1'', approved_at = Some 3\<rparr>,
         \<lparr>row_id = ''a2'', name = ''Ben'', email = ''ced-admin@spc.edu'', department = ''CED'',
          created_at = 4, is_approved = False, approved_by = None, approved_at = None\<rparr>],
      users =
        [\<lparr>row_id = ''u1'', name = ''Cid'', email = ''cid@spc.edu'', department = ''CCS'',
          created_at = 5, is_approved = True, approved_by = Some ''h1'', approved_at = Some 6,
          role = ''user''\<rparr>,
         \<lparr>row_id = ''u2'', name = ''Dee'', email = ''dee@spc.edu'', department = ''CCS'',
          created_at = 7, is_approved = False, approved_by = None, approved_at = None,
          role = ''user''\<rparr>,
         \<lparr>row_id = ''u3'', name = ''Eli'', email = ''eli@spc.edu'', department = ''CED'',
          created_at = 8, is_approved = False, approved_by = None, approved_at = None,
          role = ''user''\<rparr>,
         \<lparr>row_id = ''u4'', name = ''Fay'', email = ''fay@spc.edu'', department = ''COE'',
          created_at = 9, is_approved = True, approved_by = Some ''h2'', approved_at = Some 10,
          role = ''admin''\<rparr>],
      posts =
        [\<lparr>post_id = ''p1'', title = ''Enrollment'', content = ''Starts on Monday'',
          post_type = ''announcement'', post_department = ''CCS'', author_id = ''a1'',
          event_date = None, status = ''active'', post_created_at = 11\<rparr>,
         \<lparr>post_id = ''p2'', title = ''Sportsfest'', content = ''Bring your ID'',
          post_type = ''event'', post_department = ''CED'', author_id = ''a2'',
          event_date = Some ''2025-12-01T09:00'', status = ''active'', post_created_at = 12\<rparr>,
         \<lparr>post_id = ''p3'', title = ''Old notice'', content = ''Library hours'',
          post_type = ''announcement'', post_department = ''CCS'', author_id = ''a1'',
          event_date = None, status = ''archived'', post_created_at = 13\<rparr>,
         \<lparr>post_id = ''p4'', title = ''Past seminar'', content = ''Room 12'',
          post_type = ''event'', post_department = ''CED'', author_id = ''a2'',
          event_date = Some ''2025-01-15T13:00'', status = ''archived'', post_created_at = 14\<rparr>],
      comments =
        [\<lparr>comment_id = ''c1'', comment_post_id = ''p1'', comment_user_id = ''u1'',
          comment_content = ''Thanks'', comment_created_at = 15\<rparr>]\<rparr>"

text \<open>
  The row of \<open>users\<close> with the role \<open>admin\<close>, and two forms of the Admin Panel: an event
  with its date, and an announcement whose form still holds a date.
\<close>

definition fay :: user_row where
  "fay = \<lparr>row_id = ''u4'', name = ''Fay'', email = ''fay@spc.edu'', department = ''COE'',
          created_at = 9, is_approved = True, approved_by = Some ''h2'', approved_at = Some 10,
          role = ''admin''\<rparr>"

definition hackathon :: formData where
  "hackathon = \<lparr>form_title = ''Hackathon'', form_content = ''Lab 2'', form_type = ''event'',
                form_event_date = ''2025-11-20T08:00''\<rparr>"

definition notice :: formData where
  "notice = \<lparr>form_title = ''Notice'', form_content = ''No classes'',
             form_type = ''announcement'', form_event_date = ''2025-11-20T08:00''\<rparr>"




text \<open>The page of the program head of CCS, before its lists are fetched.\<close>

definition program_head :: dashboard where
  "program_head =
     \<lparr>superAdmin = \<lparr>row_id = ''h1'', name = ''Head'', email = ''ccs-head@spc.edu'',
                    department = ''CCS'', created_at = 1\<rparr>,
      pendingUsers = [], approvedUsers = []\<rparr>"

section \<open>Properties\<close>

lemma eq_none: "v \<notin> column ` set rows \<Longrightarrow> eq column v rows = []"
  by (induction rows) (auto simp: eq_def)

lemma eq_keyed:
  "keyed rows \<Longrightarrow> r \<in> set rows \<Longrightarrow> eq row_id (row_id r) rows = [r]"
proof (induction rows)
  case Nil
  then show ?case by simp
next
  case (Cons x xs)
  show ?case
  proof (cases "r = x")
    case True
    from Cons.prems have "row_id x \<notin> row_id ` set xs" by (simp add: keyed_def)
    then have "eq row_id (row_id x) xs = []" by (rule eq_none)
    with True show ?thesis by (simp add: eq_def)
  next
    case False
    with Cons.prems have r: "r \<in> set xs" and k: "keyed xs" and "row_id x \<noteq> row_id r"
      by (auto simp: keyed_def)
    with Cons.IH show ?thesis by (simp add: eq_def)
  qed
qed

subsection \<open>Session establishment\<close>

lemma maybeSingle_eq_none:
  "v \<notin> column ` set rows \<Longrightarrow> fst (maybeSingle (eq column v rows)) = None"
  by (simp add: eq_none)

lemma maybeSingle_eq_keyed:
  "keyed rows \<Longrightarrow> r \<in> set rows \<Longrightarrow> fst (maybeSingle (eq row_id (row_id r) rows)) = Some r"
  by (simp add: eq_keyed)

text \<open>
  C1. Session establishment resolves the tier by strict priority. For credentials that
  pass the first check and an account id \<open>uid\<close> that the identity provider has just
  authenticated, over tables keyed by id: if \<open>uid\<close> is the id of a super-admin profile,
  the login admits with tier \<open>super_admin\<close> and keeps the session, whatever the other
  tables hold; otherwise, if it is the id of an admin profile, the login signs out and
  reports pending approval when the profile is not approved, and admits with tier \<open>admin\<close>
  when it is; otherwise the same branching on the user profile, with tier \<open>user\<close>; and
  if \<open>uid\<close> is in none of the three tables the login signs out and reports that the
  account was not found.
\<close>

theorem handleLogin_priority:
  assumes cred: "login_email ld \<noteq> []" "login_password ld \<noteq> []"
    and keys: "keyed (super_admins d)" "keyed (admins d)" "keyed (users d)"
  shows "(\<forall>sa \<in> set (super_admins d). row_id sa = uid \<longrightarrow>
            handleLogin ld (Inr uid) d s = (Admitted super_admin ''/super-admin-dashboard'', Some uid))
       \<and> (uid \<notin> row_id ` set (super_admins d) \<longrightarrow>
            (\<forall>a \<in> set (admins d). row_id a = uid \<longrightarrow>
               handleLogin ld (Inr uid) d s =
                 (if is_approved a then (Admitted admin ''/dashboard'', Some uid)
                  else (PendingApproval, None))))
       \<and> (uid \<notin> row_id ` set (super_admins d) \<and> uid \<notin> row_id ` set (admins d) \<longrightarrow>
            (\<forall>u \<in> set (users d). row_id u = uid \<longrightarrow>
               handleLogin ld (Inr uid) d s =
                 (if is_approved u then (Admitted user ''/dashboard'', Some uid)
                  else (PendingApproval, None))))
       \<and> (uid \<notin> row_id ` set (super_admins d) \<and> uid \<notin> row_id ` set (admins d)
            \<and> uid \<notin> row_id ` set (users d) \<longrightarrow>
            handleLogin ld (Inr uid) d s = (AccountNotFound, None))"
proof (intro conjI impI ballI)
  fix sa assume "sa \<in> set (super_admins d)" "row_id sa = uid"
  with keys(1) have "fst (maybeSingle (eq row_id uid (super_admins d))) = Some sa"
    using maybeSingle_eq_keyed by blast
  with cred show "handleLogin ld (Inr uid) d s = (Admitted super_admin ''/super-admin-dashboard'', Some uid)"
    by (simp add: handleLogin_def)
next
  fix a assume no: "uid \<notin> row_id ` set (super_admins d)" and a: "a \<in> set (admins d)" "row_id a = uid"
  from no have "fst (maybeSingle (eq row_id uid (super_admins d))) = None"
    by (rule maybeSingle_eq_none)
  moreover from keys(2) a have "fst (maybeSingle (eq row_id uid (admins d))) = Some a"
    using maybeSingle_eq_keyed by blast
  ultimately show "handleLogin ld (Inr uid) d s =
                 (if is_approved a then (Admitted admin ''/dashboard'', Some uid)
                  else (PendingApproval, None))"
    using cred by (simp add: handleLogin_def)
next
  fix u assume no: "uid \<notin> row_id ` set (super_admins d) \<and> uid \<notin> row_id ` set (admins d)"
    and u: "u \<in> set (users d)" "row_id u = uid"
  from no have "fst (maybeSingle (eq row_id uid (super_admins d))) = None"
     "fst (maybeSingle (eq row_id uid (admins d))) = None"
    by (simp_all add: maybeSingle_eq_none)
  moreover from keys(3) u have "fst (maybeSingle (eq row_id uid (users d))) = Some u"
    using maybeSingle_eq_keyed by blast
  ultimately show "handleLogin ld (Inr uid) d s =
                 (if is_approved u then (Admitted user ''/dashboard'', Some uid)
                  else (PendingApproval, None))"
    using cred by (simp add: handleLogin_def)
next
  assume no: "uid \<notin> row_id ` set (super_admins d) \<and> uid \<notin> row_id ` set (admins d)
            \<and> uid \<notin> row_id ` set (users d)"
  then have "fst (maybeSingle (eq row_id uid (super_admins d))) = None"
     "fst (maybeSingle (eq row_id uid (admins d))) = None"
     "fst (maybeSingle (eq row_id uid (users d))) = None"
    by (simp_all add: maybeSingle_eq_none)
  then show "handleLogin ld (Inr uid) d s = (AccountNotFound, None)"
    using cred by (simp add: handleLogin_def)
qed


theorem handleLogin_priority_witness:
  "keyed (super_admins campus) \<and> keyed (admins campus) \<and> keyed (users campus)
   \<and> handleLogin \<lparr>login_email = ''x@spc.edu'', login_password = ''secret''\<rparr> (Inr ''h1'') campus None
     = (Admitted super_admin ''/super-admin-dashboard'', Some ''h1'')
   \<and> handleLogin \<lparr>login_email = ''x@spc.edu'', login_password = ''secret''\<rparr> (Inr ''a1'') campus None
     = (Admitted admin ''/dashboard'', Some ''a1'')
   \<and> handleLogin \<lparr>login_email = ''x@spc.edu'', login_password = ''secret''\<rparr> (Inr ''a2'') campus None
     = (PendingApproval, None)
   \<and> handleLogin \<lparr>login_email = ''x@spc.edu'', login_password = ''secret''\<rparr> (Inr ''u1'') campus None
     = (Admitted user ''/dashboard'', Some ''u1'')
   \<and> handleLogin \<lparr>login_email = ''x@spc.edu'', login_password = ''secret''\<rparr> (Inr ''u2'') campus None
     = (PendingApproval, None)
   \<and> handleLogin \<lparr>login_email = ''x@spc.edu'', login_password = ''secret''\<rparr> (Inr ''zz'') campus None
     = (AccountNotFound, None)"
proof -
  let ?ld = "\<lparr>login_email = ''x@spc.edu'', login_password = ''secret''\<rparr>"
  have cred: "login_email ?ld \<noteq> []" "login_password ?ld \<noteq> []" by simp_all
  have keys: "keyed (super_admins campus)" "keyed (admins campus)" "keyed (users campus)"
    by (simp_all add: campus_def keyed_def)
  note P = handleLogin_priority [OF cred keys]
  show ?thesis
    using P [of "''h1''" None] P [of "''a1''" None] P [of "''a2''" None]
      P [of "''u1''" None] P [of "''u2''" None] P [of "''zz''" None]
    using keys by (simp add: campus_def)
qed

subsection \<open>The approval workflow of the program-head dashboard\<close>

lemma set_order_desc: "set (order_desc column rows) = set rows"
  by (simp add: order_desc_def)

lemma set_order_desc_nullable: "set (order_desc_nullable column rows) = set rows"
  by (auto simp: order_desc_nullable_def set_order_desc)

lemma set_eq: "set (eq column v rows) = {r \<in> set rows. column r = v}"
  by (simp add: eq_def)

lemma in_update_where:
  "r \<in> set (update_where f column v rows) \<longleftrightarrow>
     (\<exists>x \<in> set rows. r = (if column x = v then f x else x))"
  unfolding update_where_def set_map image_iff by (rule refl)

lemma revoke_after_approve:
  "update_where (\<lambda>r. r\<lparr>is_approved := False, approved_by := None, approved_at := None\<rparr>)
     row_id uid
     (update_where (\<lambda>r. r\<lparr>is_approved := True, approved_by := Some h, approved_at := Some t\<rparr>)
        row_id uid rows)
   = update_where (\<lambda>r. r\<lparr>is_approved := False, approved_by := None, approved_at := None\<rparr>)
       row_id uid rows"
  by (induction rows) (simp_all add: update_where_def)

lemma revoke_pending_id:
  assumes "\<forall>r \<in> set rows. row_id r = uid \<longrightarrow>
             \<not> is_approved r \<and> approved_by r = None \<and> approved_at r = None"
  shows "update_where (\<lambda>r. r\<lparr>is_approved := False, approved_by := None, approved_at := None\<rparr>)
           row_id uid rows = rows"
  using assms by (induction rows) (simp_all add: update_where_def)

lemma revoke_clears:
  assumes "r \<in> set (update_where
             (\<lambda>r. r\<lparr>is_approved := False, approved_by := None, approved_at := None\<rparr>)
             row_id uid rows)"
    and u: "row_id r = uid"
  shows "\<not> is_approved r \<and> approved_by r = None \<and> approved_at r = None"
proof -
  from assms(1) obtain x where r: "r = (if row_id x = uid
      then x\<lparr>is_approved := False, approved_by := None, approved_at := None\<rparr> else x)"
    unfolding in_update_where by (rule bexE)
  show ?thesis
  proof (cases "row_id x = uid")
    case True
    with r have "r = x\<lparr>is_approved := False, approved_by := None, approved_at := None\<rparr>"
      by simp
    then show ?thesis by simp
  next
    case False
    with r have "r = x" by simp
    with False u show ?thesis by simp
  qed
qed

lemma fetchUsers_twice:
  "fetchUsers dept d (fetchUsers dept' d' dash) = fetchUsers dept d dash"
  by (simp add: fetchUsers_def)

lemma superAdmin_fetchUsers: "superAdmin (fetchUsers dept d dash) = superAdmin dash"
  by (simp add: fetchUsers_def)

lemma handleApprove_applied:
  "handleApprove userId userName now None d dash =
     (ToastSuccess (userName @ '' has been approved!''),
      d\<lparr>users := update_where
          (\<lambda>r. r\<lparr>is_approved := True, approved_by := Some (row_id (superAdmin dash)),
                  approved_at := Some now\<rparr>) row_id userId (users d)\<rparr>,
      fetchUsers (department (superAdmin dash))
        (d\<lparr>users := update_where
          (\<lambda>r. r\<lparr>is_approved := True, approved_by := Some (row_id (superAdmin dash)),
                  approved_at := Some now\<rparr>) row_id userId (users d)\<rparr>) dash)"
  by (simp add: handleApprove_def Let_def)

lemma handleRevokeApproval_applied:
  "handleRevokeApproval userId userName True None d dash =
     (ToastSuccess (''Approval revoked for '' @ userName),
      d\<lparr>users := update_where
          (\<lambda>r. r\<lparr>is_approved := False, approved_by := None, approved_at := None\<rparr>)
          row_id userId (users d)\<rparr>,
      fetchUsers (department (superAdmin dash))
        (d\<lparr>users := update_where
          (\<lambda>r. r\<lparr>is_approved := False, approved_by := None, approved_at := None\<rparr>)
          row_id userId (users d)\<rparr>) dash)"
  by (simp add: handleRevokeApproval_def Let_def)



lemma fetchUsers_frame:
  "fetchUsers dept (d\<lparr>admins := A, super_admins := S, posts := P, comments := C\<rparr>) dash
     = fetchUsers dept d dash"
  by (simp add: fetchUsers_def)

lemma handleApprove_frame:
  "handleApprove u n now reply (d\<lparr>admins := A, super_admins := S, posts := P, comments := C\<rparr>)
       dash =
     (case handleApprove u n now reply d dash of
        (t, d', dash') \<Rightarrow>
          (t, d'\<lparr>admins := A, super_admins := S, posts := P, comments := C\<rparr>, dash'))"
  by (cases reply) (simp_all add: handleApprove_def Let_def fetchUsers_def)

lemma handleReject_frame:
  "handleReject u n c reply (d\<lparr>admins := A, super_admins := S, posts := P, comments := C\<rparr>)
       dash =
     (case handleReject u n c reply d dash of
        (t, d', dash') \<Rightarrow>
          (t, d'\<lparr>admins := A, super_admins := S, posts := P, comments := C\<rparr>, dash'))"
  by (cases reply) (simp_all add: handleReject_def Let_def fetchUsers_def)

lemma handleRevokeApproval_frame:
  "handleRevokeApproval u n c reply
       (d\<lparr>admins := A, super_admins := S, posts := P, comments := C\<rparr>) dash =
     (case handleRevokeApproval u n c reply d dash of
        (t, d', dash') \<Rightarrow>
          (t, d'\<lparr>admins := A, super_admins := S, posts := P, comments := C\<rparr>, dash'))"
  by (cases reply) (simp_all add: handleRevokeApproval_def Let_def fetchUsers_def)

text \<open>What a handler does to a store is a new \<open>users\<close> table, and nothing else.\<close>

lemma handleApprove_writes_users:
  "fst (snd (handleApprove u n now reply d dash))
     = d\<lparr>users := users (fst (snd (handleApprove u n now reply d dash)))\<rparr>"
  by (cases reply) (simp_all add: handleApprove_def Let_def)

lemma handleReject_writes_users:
  "fst (snd (handleReject u n c reply d dash))
     = d\<lparr>users := users (fst (snd (handleReject u n c reply d dash)))\<rparr>"
  by (cases reply) (simp_all add: handleReject_def Let_def)

lemma handleRevokeApproval_writes_users:
  "fst (snd (handleRevokeApproval u n c reply d dash))
     = d\<lparr>users := users (fst (snd (handleRevokeApproval u n c reply d dash)))\<rparr>"
  by (cases reply) (simp_all add: handleRevokeApproval_def Let_def)

lemma click_step_writes_users:
  "fst (click_step c (d, dash)) = d\<lparr>users := users (fst (click_step c (d, dash)))\<rparr>"
proof (cases c)
  case Refresh
  then show ?thesis by simp
next
  case (Approve u n now reply)
  with handleApprove_writes_users [of u n now reply d dash] show ?thesis by simp
next
  case (Reject u n c reply)
  with handleReject_writes_users [of u n c reply d dash] show ?thesis by simp
next
  case (Revoke u n c reply)
  with handleRevokeApproval_writes_users [of u n c reply d dash] show ?thesis by simp
qed

lemma clicks_writes_users:
  "fst (clicks cs s) = (fst s)\<lparr>users := users (fst (clicks cs s))\<rparr>"
proof (induction cs arbitrary: s)
  case Nil
  show ?case by simp
next
  case (Cons c cs)
  obtain d dash where s: "s = (d, dash)" by (cases s)
  let ?s' = "click_step c (d, dash)"
  have step: "fst ?s' = d\<lparr>users := users (fst ?s')\<rparr>"
    by (rule click_step_writes_users)
  have "fst (clicks cs ?s') = (fst ?s')\<lparr>users := users (fst (clicks cs ?s'))\<rparr>"
    by (rule Cons.IH)
  also have "\<dots> = (d\<lparr>users := users (fst ?s')\<rparr>)\<lparr>users := users (fst (clicks cs ?s'))\<rparr>"
    by (rule arg_cong [where f = "\<lambda>x. x\<lparr>users := users (fst (clicks cs ?s'))\<rparr>"]) (rule step)
  also have "\<dots> = d\<lparr>users := users (fst (clicks cs ?s'))\<rparr>" by simp
  finally show ?case unfolding s by simp
qed




lemma keyed_same_row:
  assumes "keyed rows" "p \<in> set rows" "x \<in> set rows" "row_id x = row_id p"
  shows "x = p"
proof -
  from assms(1) have "inj_on row_id (set rows)"
    by (simp add: keyed_def distinct_map)
  with assms(2-4) show ?thesis by (rule_tac inj_onD)
qed

lemma filter_update_where:
  "(\<forall>x \<in> set rows. column x = v \<longrightarrow> \<not> P x \<and> \<not> P (f x)) \<Longrightarrow>
     filter P (update_where f column v rows) = filter P rows"
  by (induction rows) (simp_all add: update_where_def)

lemma filter_delete_where:
  "(\<forall>x \<in> set rows. column x = v \<longrightarrow> \<not> P x) \<Longrightarrow>
     filter P (delete_where column v rows) = filter P rows"
  by (induction rows) (simp_all add: delete_where_def)

lemma users_handleApprove:
  "users (fst (snd (handleApprove userId userName now reply d dash))) =
     (case reply of
        Some e \<Rightarrow> users d
      | None \<Rightarrow> update_where
          (\<lambda>r. r\<lparr>is_approved := True, approved_by := Some (row_id (superAdmin dash)),
                  approved_at := Some now\<rparr>) row_id userId (users d))"
  by (cases reply) (simp_all add: handleApprove_def Let_def)

lemma users_handleReject:
  "users (fst (snd (handleReject userId userName confirmed reply d dash))) =
     (if \<not> confirmed then users d
      else case reply of
        Some e \<Rightarrow> users d
      | None \<Rightarrow> delete_where row_id userId (users d))"
  by (cases reply) (simp_all add: handleReject_def Let_def)

lemma users_handleRevokeApproval:
  "users (fst (snd (handleRevokeApproval userId userName confirmed reply d dash))) =
     (if \<not> confirmed then users d
      else case reply of
        Some e \<Rightarrow> users d
      | None \<Rightarrow> update_where
          (\<lambda>r. r\<lparr>is_approved := False, approved_by := None, approved_at := None\<rparr>)
          row_id userId (users d))"
  by (cases reply) (simp_all add: handleRevokeApproval_def Let_def)

lemma listed_users:
  "set (pendingUsers (fetchUsers dept d dash)) =
     {r \<in> set (users d). department r = dept \<and> \<not> is_approved r}"
  "set (approvedUsers (fetchUsers dept d dash)) =
     {r \<in> set (users d). department r = dept \<and> is_approved r}"
  by (auto simp: fetchUsers_def set_order_desc set_order_desc_nullable set_eq)


text \<open>
  C3. Approve followed by revoke is a round trip. When the store applies both writes and
  the revoke dialog is confirmed, every profile with the given id ends with
  \<open>is_approved = false\<close>, \<open>approved_by = null\<close> and \<open>approved_at = null\<close>; and if that was the
  state of the profile before the approval, the whole store is the one before the approval
  and the page shows the lists of that store.
\<close>

theorem approve_revoke_roundtrip:
  assumes approve: "handleApprove userId userName now None d dash = (t1, d1, dash1)"
    and revoke: "handleRevokeApproval userId userName True None d1 dash1 = (t2, d2, dash2)"
  shows "(\<forall>r \<in> set (users d2). row_id r = userId \<longrightarrow>
            \<not> is_approved r \<and> approved_by r = None \<and> approved_at r = None)
       \<and> ((\<forall>r \<in> set (users d). row_id r = userId \<longrightarrow>
              \<not> is_approved r \<and> approved_by r = None \<and> approved_at r = None)
            \<longrightarrow> d2 = d \<and> dash2 = fetchUsers (department (superAdmin dash)) d dash)"
proof -
  let ?clear = "\<lambda>r::user_row. r\<lparr>is_approved := False, approved_by := None, approved_at := None\<rparr>"
  let ?set = "\<lambda>r::user_row. r\<lparr>is_approved := True,
                approved_by := Some (row_id (superAdmin dash)), approved_at := Some now\<rparr>"
  from approve have "(t1, d1, dash1) = handleApprove userId userName now None d dash"
    by (rule sym)
  then have d1: "d1 = d\<lparr>users := update_where ?set row_id userId (users d)\<rparr>"
    and dash1: "dash1 = fetchUsers (department (superAdmin dash)) d1 dash"
    unfolding handleApprove_applied by simp_all
  from revoke have "(t2, d2, dash2) = handleRevokeApproval userId userName True None d1 dash1"
    by (rule sym)
  then have d2: "d2 = d1\<lparr>users := update_where ?clear row_id userId (users d1)\<rparr>"
    and dash2: "dash2 = fetchUsers (department (superAdmin dash1)) d2 dash1"
    unfolding handleRevokeApproval_applied by simp_all
  have users2: "users d2 = update_where ?clear row_id userId (users d)"
    unfolding d2 d1 by (simp add: revoke_after_approve)
  have rest: "d2 = d\<lparr>users := users d2\<rparr>"
    unfolding d2 d1 by simp
  have cleared: "\<forall>r \<in> set (users d2). row_id r = userId \<longrightarrow>
            \<not> is_approved r \<and> approved_by r = None \<and> approved_at r = None"
    unfolding users2 using revoke_clears by blast
  have restored: "d2 = d \<and> dash2 = fetchUsers (department (superAdmin dash)) d dash"
    if pending: "\<forall>r \<in> set (users d). row_id r = userId \<longrightarrow>
              \<not> is_approved r \<and> approved_by r = None \<and> approved_at r = None"
  proof -
    from pending have "users d2 = users d"
      unfolding users2 by (rule revoke_pending_id)
    with rest have "d2 = d" by simp
    then show ?thesis
      unfolding dash2 dash1 by (simp add: fetchUsers_twice superAdmin_fetchUsers)
  qed
  from cleared restored show ?thesis by blast
qed

text \<open>The round trip on the example store: the pending student \<open>u2\<close> is approved, then revoked.\<close>

theorem approve_revoke_roundtrip_witness:
  "map (\<lambda>r. (is_approved r, approved_by r, approved_at r)) (eq row_id ''u2'' (users campus))
     = [(False, None, None)]
   \<and> map (\<lambda>r. (is_approved r, approved_by r, approved_at r))
       (eq row_id ''u2'' (users (fst (snd (handleApprove ''u2'' ''Dee'' 9 None campus program_head)))))
     = [(True, Some ''h1'', Some 9)]
   \<and> fst (snd (handleRevokeApproval ''u2'' ''Dee'' True None
        (fst (snd (handleApprove ''u2'' ''Dee'' 9 None campus program_head)))
        (snd (snd (handleApprove ''u2'' ''Dee'' 9 None campus program_head)))))
     = campus"
proof -
  let ?A = "handleApprove ''u2'' ''Dee'' 9 None campus program_head"
  let ?R = "handleRevokeApproval ''u2'' ''Dee'' True None (fst (snd ?A)) (snd (snd ?A))"
  have approve: "?A = (fst ?A, fst (snd ?A), snd (snd ?A))" by simp
  have revoke: "?R = (fst ?R, fst (snd ?R), snd (snd ?R))" by simp
  have pending: "\<forall>r \<in> set (users campus). row_id r = ''u2'' \<longrightarrow>
      \<not> is_approved r \<and> approved_by r = None \<and> approved_at r = None"
    by (simp add: campus_def)
  from approve_revoke_roundtrip [OF approve revoke] pending
  have "fst (snd ?R) = campus" by blast
  moreover have "map (\<lambda>r. (is_approved r, approved_by r, approved_at r))
       (eq row_id ''u2'' (users (fst (snd ?A)))) = [(True, Some ''h1'', Some 9)]"
    by (simp add: handleApprove_applied campus_def program_head_def eq_def update_where_def)
  moreover have "map (\<lambda>r. (is_approved r, approved_by r, approved_at r))
       (eq row_id ''u2'' (users campus)) = [(False, None, None)]"
    by (simp add: campus_def eq_def)
  ultimately show ?thesis by simp
qed


text \<open>
  C8. The operations of the dashboard read and write the \<open>users\<close> table only. Reading:
  replacing the tables \<open>admins\<close>, \<open>super_admins\<close>, \<open>posts\<close> and \<open>comments\<close> by any others
  changes neither the lists that \<open>fetchUsers\<close> shows nor the message and the lists of
  approve, reject and revoke, and the replaced tables come out of each operation as they
  went in; the listed rows are rows of \<open>users\<close>. Writing: the store after approve, reject
  or revoke, whatever the store replies and the dialog answers, is the store before with
  a new \<open>users\<close> table, and so is the store after any sequence of clicks on the page. The
  tables \<open>admins\<close>, \<open>super_admins\<close>, \<open>posts\<close> and \<open>comments\<close> are then what they were, so a
  pending row of \<open>admins\<close> stays pending.
\<close>

theorem dashboard_touches_only_users:
  "fetchUsers dept (d\<lparr>admins := A, super_admins := S, posts := P, comments := C\<rparr>) dash
     = fetchUsers dept d dash
   \<and> handleApprove u n now reply
         (d\<lparr>admins := A, super_admins := S, posts := P, comments := C\<rparr>) dash =
       (case handleApprove u n now reply d dash of
          (t, d', dash') \<Rightarrow>
            (t, d'\<lparr>admins := A, super_admins := S, posts := P, comments := C\<rparr>, dash'))
   \<and> handleReject u n c reply
         (d\<lparr>admins := A, super_admins := S, posts := P, comments := C\<rparr>) dash =
       (case handleReject u n c reply d dash of
          (t, d', dash') \<Rightarrow>
            (t, d'\<lparr>admins := A, super_admins := S, posts := P, comments := C\<rparr>, dash'))
   \<and> handleRevokeApproval u n c reply
         (d\<lparr>admins := A, super_admins := S, posts := P, comments := C\<rparr>) dash =
       (case handleRevokeApproval u n c reply d dash of
          (t, d', dash') \<Rightarrow>
            (t, d'\<lparr>admins := A, super_admins := S, posts := P, comments := C\<rparr>, dash'))
   \<and> set (pendingUsers (fetchUsers dept d dash)) \<union> set (approvedUsers (fetchUsers dept d dash))
       \<subseteq> set (users d)
   \<and> fst (snd (handleApprove u n now reply d dash))
       = d\<lparr>users := users (fst (snd (handleApprove u n now reply d dash)))\<rparr>
   \<and> fst (snd (handleReject u n c reply d dash))
       = d\<lparr>users := users (fst (snd (handleReject u n c reply d dash)))\<rparr>
   \<and> fst (snd (handleRevokeApproval u n c reply d dash))
       = d\<lparr>users := users (fst (snd (handleRevokeApproval u n c reply d dash)))\<rparr>
   \<and> fst (clicks cs (d, dash)) = d\<lparr>users := users (fst (clicks cs (d, dash)))\<rparr>
   \<and> admins (fst (clicks cs (d, dash))) = admins d
   \<and> super_admins (fst (clicks cs (d, dash))) = super_admins d
   \<and> posts (fst (clicks cs (d, dash))) = posts d
   \<and> comments (fst (clicks cs (d, dash))) = comments d"
proof -
  have listed: "set (pendingUsers (fetchUsers dept d dash))
      \<union> set (approvedUsers (fetchUsers dept d dash)) \<subseteq> set (users d)"
    unfolding listed_users by blast
  have all: "fst (clicks cs (d, dash)) = d\<lparr>users := users (fst (clicks cs (d, dash)))\<rparr>"
    using clicks_writes_users [of cs "(d, dash)"] by simp
  have kept: "admins (fst (clicks cs (d, dash))) = admins d"
    "super_admins (fst (clicks cs (d, dash))) = super_admins d"
    "posts (fst (clicks cs (d, dash))) = posts d"
    "comments (fst (clicks cs (d, dash))) = comments d"
    using arg_cong [OF all, of admins] arg_cong [OF all, of super_admins]
      arg_cong [OF all, of posts] arg_cong [OF all, of comments]
    by simp_all
  show ?thesis
    by (intro conjI fetchUsers_frame handleApprove_frame handleReject_frame
        handleRevokeApproval_frame listed handleApprove_writes_users
        handleReject_writes_users handleRevokeApproval_writes_users all kept)
qed






text \<open>
  C4, as stated, fails: the handlers compare no departments. The program head of CCS
  approves the student \<open>u3\<close> of CED; the call reports success and the row of \<open>u3\<close> is
  approved by \<open>h1\<close>.
\<close>

theorem cross_department_approve_succeeds:
  "department (superAdmin program_head) = ''CCS''
   \<and> map department (eq row_id ''u3'' (users campus)) = [''CED'']
   \<and> map is_approved (eq row_id ''u3'' (users campus)) = [False]
   \<and> fst (handleApprove ''u3'' ''Eli'' 9 None campus program_head)
       = ToastSuccess ''Eli has been approved!''
   \<and> eq row_id ''u3'' (users (fst (snd (handleApprove ''u3'' ''Eli'' 9 None campus program_head))))
       = [\<lparr>row_id = ''u3'', name = ''Eli'', email = ''eli@spc.edu'', department = ''CED'',
           created_at = 8, is_approved = True, approved_by = Some ''h1'', approved_at = Some 9,
           role = ''user''\<rparr>]"
  by (simp add: handleApprove_applied campus_def program_head_def eq_def update_where_def)

text \<open>
  C4, amended. The scope of the workflow is the listing: over a \<open>users\<close> table keyed by
  id, every profile that \<open>fetchUsers\<close> lists for the program head belongs to the program
  head's department, and approve, reject or revoke called on the id of a listed profile
  leaves every row of every other department as it is.
\<close>

theorem approval_scope_by_listing:
  assumes key: "keyed (users d)"
    and listed: "p \<in> set (pendingUsers (fetchUsers (department (superAdmin dash)) d dash))
                   \<union> set (approvedUsers (fetchUsers (department (superAdmin dash)) d dash))"
  shows "department p = department (superAdmin dash)
       \<and> filter (\<lambda>r. department r \<noteq> department (superAdmin dash))
           (users (fst (snd (handleApprove (row_id p) userName now reply d dash))))
         = filter (\<lambda>r. department r \<noteq> department (superAdmin dash)) (users d)
       \<and> filter (\<lambda>r. department r \<noteq> department (superAdmin dash))
           (users (fst (snd (handleReject (row_id p) userName confirmed reply d dash))))
         = filter (\<lambda>r. department r \<noteq> department (superAdmin dash)) (users d)
       \<and> filter (\<lambda>r. department r \<noteq> department (superAdmin dash))
           (users (fst (snd (handleRevokeApproval (row_id p) userName confirmed reply d dash))))
         = filter (\<lambda>r. department r \<noteq> department (superAdmin dash)) (users d)"
proof -
  let ?dept = "department (superAdmin dash)"
  let ?other = "\<lambda>r::user_row. department r \<noteq> ?dept"
  from listed have p: "p \<in> set (users d)" and dept: "department p = ?dept"
    unfolding listed_users by blast+
  have own: "\<forall>x \<in> set (users d). row_id x = row_id p \<longrightarrow> department x = ?dept"
    using keyed_same_row [OF key p] dept by blast
  have approve: "filter ?other (update_where
          (\<lambda>r. r\<lparr>is_approved := True, approved_by := Some (row_id (superAdmin dash)),
                  approved_at := Some now\<rparr>) row_id (row_id p) (users d)) = filter ?other (users d)"
    by (rule filter_update_where) (simp add: own)
  have revoke: "filter ?other (update_where
          (\<lambda>r. r\<lparr>is_approved := False, approved_by := None, approved_at := None\<rparr>)
          row_id (row_id p) (users d)) = filter ?other (users d)"
    by (rule filter_update_where) (simp add: own)
  have reject: "filter ?other (delete_where row_id (row_id p) (users d)) = filter ?other (users d)"
    by (rule filter_delete_where) (simp add: own)
  have A: "filter ?other (users (fst (snd (handleApprove (row_id p) userName now reply d dash))))
         = filter ?other (users d)"
    unfolding users_handleApprove using approve by (cases reply) simp_all
  have B: "filter ?other (users (fst (snd (handleReject (row_id p) userName confirmed reply d dash))))
         = filter ?other (users d)"
    unfolding users_handleReject using reject by (cases reply) simp_all
  have C: "filter ?other
           (users (fst (snd (handleRevokeApproval (row_id p) userName confirmed reply d dash))))
         = filter ?other (users d)"
    unfolding users_handleRevokeApproval using revoke by (cases reply) simp_all
  from dept A B C show ?thesis by simp
qed


text \<open>On the example store the listed students are \<open>u2\<close> and \<open>u1\<close>; the CED row is kept.\<close>

theorem approval_scope_by_listing_witness:
  "keyed (users campus)
   \<and> map row_id (pendingUsers (fetchUsers ''CCS'' campus program_head)) = [''u2'']
   \<and> map row_id (approvedUsers (fetchUsers ''CCS'' campus program_head)) = [''u1'']
   \<and> map row_id (filter (\<lambda>r. department r \<noteq> ''CCS'') (users campus)) = [''u3'', ''u4'']
   \<and> filter (\<lambda>r. department r \<noteq> ''CCS'')
        (users (fst (snd (handleApprove ''u2'' ''Dee'' 9 None campus program_head))))
      = filter (\<lambda>r. department r \<noteq> ''CCS'') (users campus)
   \<and> filter (\<lambda>r. department r \<noteq> ''CCS'')
        (users (fst (snd (handleReject ''u2'' ''Dee'' True None campus program_head))))
      = filter (\<lambda>r. department r \<noteq> ''CCS'') (users campus)
   \<and> filter (\<lambda>r. department r \<noteq> ''CCS'')
        (users (fst (snd (handleRevokeApproval ''u1'' ''Cid'' True None campus program_head))))
      = filter (\<lambda>r. department r \<noteq> ''CCS'') (users campus)"
proof -
  let ?u1 = "\<lparr>row_id = ''u1'', name = ''Cid'', email = ''cid@spc.edu'', department = ''CCS'',
          created_at = 5, is_approved = True, approved_by = Some ''h1'', approved_at = Some 6,
          role = ''user''\<rparr>"
  let ?u2 = "\<lparr>row_id = ''u2'', name = ''Dee'', email = ''dee@spc.edu'', department = ''CCS'',
          created_at = 7, is_approved = False, approved_by = None, approved_at = None,
          role = ''user''\<rparr>"
  have dept: "department (superAdmin program_head) = ''CCS''"
    by (simp add: program_head_def)
  have key: "keyed (users campus)"
    by (simp add: campus_def keyed_def)
  have pending: "pendingUsers (fetchUsers ''CCS'' campus program_head) = [?u2]"
    by (simp add: fetchUsers_def campus_def eq_def order_desc_def)
  have approved: "approvedUsers (fetchUsers ''CCS'' campus program_head) = [?u1]"
    by (simp add: fetchUsers_def campus_def eq_def order_desc_def order_desc_nullable_def)
  have l2: "?u2 \<in> set (pendingUsers (fetchUsers (department (superAdmin program_head)) campus program_head))
      \<union> set (approvedUsers (fetchUsers (department (superAdmin program_head)) campus program_head))"
    unfolding dept pending approved by simp
  have l1: "?u1 \<in> set (pendingUsers (fetchUsers (department (superAdmin program_head)) campus program_head))
      \<union> set (approvedUsers (fetchUsers (department (superAdmin program_head)) campus program_head))"
    unfolding dept pending approved by simp
  have others: "map row_id (filter (\<lambda>r. department r \<noteq> ''CCS'') (users campus)) = [''u3'', ''u4'']"
    by (simp add: campus_def)
  from approval_scope_by_listing [OF key l2, of "''Dee''" 9 None True]
    approval_scope_by_listing [OF key l1, of "''Cid''" 9 None True]
    key pending approved others
  show ?thesis
    unfolding dept by simp
qed

subsection \<open>Posts of the Admin Panel\<close>

lemma handleCreatePost_rejects:
  "form_type fd = ''event'' \<Longrightarrow> form_event_date fd = [] \<Longrightarrow>
     snd (handleCreatePost fd profile gen reply d) = d
     \<and> fst (handleCreatePost fd profile gen reply d) \<in>
         {ToastError ''Title and content are required'',
          ToastError ''Event date is required for events''}"
  by (simp add: handleCreatePost_def)

lemma handleEditPost_rejects:
  "form_type fd = ''event'' \<Longrightarrow> form_event_date fd = [] \<Longrightarrow>
     snd (handleEditPost fd editingPost reply d) = d
     \<and> fst (handleEditPost fd editingPost reply d) \<in>
         {ToastError ''Title and content are required'',
          ToastError ''Event date is required for events''}"
  by (simp add: handleEditPost_def)

lemma handleCreatePost_cases:
  "(\<exists>m. handleCreatePost fd profile gen reply d = (ToastError m, d))
   \<or> (\<exists>p. profile = Some p
         \<and> \<not> (form_type fd = ''event'' \<and> form_event_date fd = [])
         \<and> handleCreatePost fd profile gen reply d =
             (ToastSuccess ''Post created successfully!'',
              d\<lparr>posts := posts d @ [new_post fd p gen]\<rparr>))"
  unfolding handleCreatePost_def
  by (cases profile; cases reply) simp_all

lemma handleEditPost_cases:
  "(\<exists>m. handleEditPost fd editingPost reply d = (ToastError m, d))
   \<or> (\<exists>ep. editingPost = Some ep
         \<and> \<not> (form_type fd = ''event'' \<and> form_event_date fd = [])
         \<and> handleEditPost fd editingPost reply d =
             (ToastSuccess ''Post updated successfully!'',
              d\<lparr>posts := update_where (edited_post fd) post_id (post_id ep) (posts d)\<rparr>))"
  unfolding handleEditPost_def
  by (cases editingPost; cases reply) simp_all

lemma new_post_rule:
  "\<not> (form_type fd = ''event'' \<and> form_event_date fd = []) \<Longrightarrow>
     event_date_rule (new_post fd p gen) \<and> post_type (new_post fd p gen) = form_type fd"
  by (simp add: event_date_rule_def new_post_def)

lemma edited_post_rule:
  "\<not> (form_type fd = ''event'' \<and> form_event_date fd = []) \<Longrightarrow>
     event_date_rule (edited_post fd r) \<and> post_type (edited_post fd r) = form_type fd
     \<and> post_id (edited_post fd r) = post_id r"
  by (simp add: event_date_rule_def edited_post_def)

lemma created_post:
  assumes "fst (handleCreatePost fd profile gen reply d) = ToastSuccess m"
  shows "\<exists>row. posts (snd (handleCreatePost fd profile gen reply d)) = posts d @ [row]
           \<and> post_type row = form_type fd \<and> event_date_rule row"
  using handleCreatePost_cases [of fd profile gen reply d]
proof (elim disjE exE conjE)
  fix e assume "handleCreatePost fd profile gen reply d = (ToastError e, d)"
  with assms show ?thesis by simp
next
  fix p
  assume ok: "\<not> (form_type fd = ''event'' \<and> form_event_date fd = [])"
    and run: "handleCreatePost fd profile gen reply d =
             (ToastSuccess ''Post created successfully!'',
              d\<lparr>posts := posts d @ [new_post fd p gen]\<rparr>)"
  from new_post_rule [OF ok, of p gen] run show ?thesis by simp
qed

lemma edited_row:
  assumes "fst (handleEditPost fd (Some ep) reply d) = ToastSuccess m"
    and row: "row \<in> set (posts (snd (handleEditPost fd (Some ep) reply d)))"
    and same: "post_id row = post_id ep"
  shows "post_type row = form_type fd \<and> event_date_rule row"
  using handleEditPost_cases [of fd "Some ep" reply d]
proof (elim disjE exE conjE)
  fix e assume "handleEditPost fd (Some ep) reply d = (ToastError e, d)"
  with assms show ?thesis by simp
next
  fix ep'
  assume ep': "Some ep = Some ep'"
    and ok: "\<not> (form_type fd = ''event'' \<and> form_event_date fd = [])"
    and run: "handleEditPost fd (Some ep) reply d =
             (ToastSuccess ''Post updated successfully!'',
              d\<lparr>posts := update_where (edited_post fd) post_id (post_id ep') (posts d)\<rparr>)"
  from row have "row \<in> set (update_where (edited_post fd) post_id (post_id ep) (posts d))"
    unfolding run using ep' by simp
  then obtain x where x: "row = (if post_id x = post_id ep then edited_post fd x else x)"
    unfolding in_update_where by (rule bexE)
  have "post_id x = post_id ep"
  proof (rule ccontr)
    assume other: "post_id x \<noteq> post_id ep"
    with x have "row = x" by simp
    with same other show False by simp
  qed
  with x have "row = edited_post fd x" by simp
  with edited_post_rule [OF ok, of x] show ?thesis by simp
qed

lemma rule_kept_by_create:
  assumes "\<forall>p \<in> set (posts d). event_date_rule p"
  shows "\<forall>p \<in> set (posts (snd (handleCreatePost fd profile gen reply d))). event_date_rule p"
  using handleCreatePost_cases [of fd profile gen reply d]
proof (elim disjE exE conjE)
  fix e assume "handleCreatePost fd profile gen reply d = (ToastError e, d)"
  with assms show ?thesis by simp
next
  fix p
  assume ok: "\<not> (form_type fd = ''event'' \<and> form_event_date fd = [])"
    and run: "handleCreatePost fd profile gen reply d =
             (ToastSuccess ''Post created successfully!'',
              d\<lparr>posts := posts d @ [new_post fd p gen]\<rparr>)"
  from new_post_rule [OF ok, of p gen] assms show ?thesis unfolding run by simp
qed

lemma rule_kept_by_edit:
  assumes "\<forall>p \<in> set (posts d). event_date_rule p"
  shows "\<forall>p \<in> set (posts (snd (handleEditPost fd editingPost reply d))). event_date_rule p"
  using handleEditPost_cases [of fd editingPost reply d]
proof (elim disjE exE conjE)
  fix e assume "handleEditPost fd editingPost reply d = (ToastError e, d)"
  with assms show ?thesis by simp
next
  fix ep
  assume ok: "\<not> (form_type fd = ''event'' \<and> form_event_date fd = [])"
    and run: "handleEditPost fd editingPost reply d =
             (ToastSuccess ''Post updated successfully!'',
              d\<lparr>posts := update_where (edited_post fd) post_id (post_id ep) (posts d)\<rparr>)"
  show ?thesis
  proof
    fix p assume "p \<in> set (posts (snd (handleEditPost fd editingPost reply d)))"
    then have "p \<in> set (update_where (edited_post fd) post_id (post_id ep) (posts d))"
      unfolding run by simp
    then obtain x where x: "x \<in> set (posts d)"
      and p: "p = (if post_id x = post_id ep then edited_post fd x else x)"
      unfolding in_update_where by blast
    show "event_date_rule p"
    proof (cases "post_id x = post_id ep")
      case True
      with p have "p = edited_post fd x" by simp
      with edited_post_rule [OF ok, of x] show ?thesis by simp
    next
      case False
      with p have "p = x" by simp
      with x assms show ?thesis by simp
    qed
  qed
qed


text \<open>
  C5. A post accepted by post creation or post editing has an event date exactly when
  its type is \<open>event\<close>. A form of type \<open>event\<close> without a date is refused by both handlers
  with an error message and the store is untouched, whatever the store would have replied.
  When creation succeeds, \<open>posts\<close> grows by one row that has the type of the form and an
  event date if and only if that type is \<open>event\<close> (so an announcement is saved with
  \<open>null\<close>); when editing succeeds, the same holds of every row with the id of the edited
  post. Hence both handlers keep the rule on all rows of \<open>posts\<close>.
\<close>

theorem event_date_iff_event:
  "(form_type fd = ''event'' \<and> form_event_date fd = [] \<longrightarrow>
      snd (handleCreatePost fd profile gen reply d) = d
      \<and> fst (handleCreatePost fd profile gen reply d) \<in>
         {ToastError ''Title and content are required'',
          ToastError ''Event date is required for events''}
      \<and> snd (handleEditPost fd editingPost reply d) = d
      \<and> fst (handleEditPost fd editingPost reply d) \<in>
         {ToastError ''Title and content are required'',
          ToastError ''Event date is required for events''})
   \<and> (fst (handleCreatePost fd profile gen reply d) = ToastSuccess m \<longrightarrow>
        (\<exists>row. posts (snd (handleCreatePost fd profile gen reply d)) = posts d @ [row]
           \<and> post_type row = form_type fd
           \<and> ((event_date row \<noteq> None) = (post_type row = ''event''))))
   \<and> (fst (handleEditPost fd (Some ep) reply d) = ToastSuccess m \<longrightarrow>
        (\<forall>row \<in> set (posts (snd (handleEditPost fd (Some ep) reply d))).
           post_id row = post_id ep \<longrightarrow>
             post_type row = form_type fd
             \<and> ((event_date row \<noteq> None) = (post_type row = ''event''))))
   \<and> ((\<forall>p \<in> set (posts d). event_date_rule p) \<longrightarrow>
        (\<forall>p \<in> set (posts (snd (handleCreatePost fd profile gen reply d))). event_date_rule p)
        \<and> (\<forall>p \<in> set (posts (snd (handleEditPost fd editingPost reply d))). event_date_rule p))"
proof (intro conjI impI)
  assume "form_type fd = ''event'' \<and> form_event_date fd = []"
  then have e: "form_type fd = ''event''" "form_event_date fd = []" by simp_all
  from handleCreatePost_rejects [OF e]
  show "snd (handleCreatePost fd profile gen reply d) = d"
    "fst (handleCreatePost fd profile gen reply d) \<in>
         {ToastError ''Title and content are required'',
          ToastError ''Event date is required for events''}"
    by blast+
  from handleEditPost_rejects [OF e]
  show "snd (handleEditPost fd editingPost reply d) = d"
    "fst (handleEditPost fd editingPost reply d) \<in>
         {ToastError ''Title and content are required'',
          ToastError ''Event date is required for events''}"
    by blast+
next
  assume "fst (handleCreatePost fd profile gen reply d) = ToastSuccess m"
  from created_post [OF this]
  show "\<exists>row. posts (snd (handleCreatePost fd profile gen reply d)) = posts d @ [row]
           \<and> post_type row = form_type fd
           \<and> ((event_date row \<noteq> None) = (post_type row = ''event''))"
    unfolding event_date_rule_def .
next
  assume ok: "fst (handleEditPost fd (Some ep) reply d) = ToastSuccess m"
  show "\<forall>row \<in> set (posts (snd (handleEditPost fd (Some ep) reply d))).
           post_id row = post_id ep \<longrightarrow>
             post_type row = form_type fd
             \<and> ((event_date row \<noteq> None) = (post_type row = ''event''))"
    using edited_row [OF ok] unfolding event_date_rule_def by blast
next
  assume inv: "\<forall>p \<in> set (posts d). event_date_rule p"
  from rule_kept_by_create [OF inv]
  show "\<forall>p \<in> set (posts (snd (handleCreatePost fd profile gen reply d))). event_date_rule p" .
  from rule_kept_by_edit [OF inv]
  show "\<forall>p \<in> set (posts (snd (handleEditPost fd editingPost reply d))). event_date_rule p" .
qed

text \<open>
  On the example store: the undated event is refused by both handlers, the dated event is
  saved with its date, and the announcement is saved without the date its form held.
\<close>

theorem event_date_iff_event_witness:
  "handleCreatePost (hackathon\<lparr>form_event_date := []\<rparr>) (Some fay) (''p5'', 20) None campus
     = (ToastError ''Event date is required for events'', campus)
   \<and> handleEditPost (hackathon\<lparr>form_event_date := []\<rparr>) (Some (hd (posts campus))) None campus
     = (ToastError ''Event date is required for events'', campus)
   \<and> map event_date (posts (snd (handleCreatePost hackathon (Some fay) (''p5'', 20) None campus)))
     = [None, Some ''2025-12-01T09:00'', None, Some ''2025-01-15T13:00'',
        Some ''2025-11-20T08:00'']
   \<and> map event_date (posts (snd (handleCreatePost notice (Some fay) (''p5'', 20) None campus)))
     = [None, Some ''2025-12-01T09:00'', None, Some ''2025-01-15T13:00'', None]
   \<and> list_all event_date_rule
        (posts (snd (handleCreatePost notice (Some fay) (''p5'', 20) None campus)))
   \<and> list_all event_date_rule
        (posts (snd (handleEditPost hackathon (Some (hd (posts campus))) None campus)))"
proof -
  let ?undated = "hackathon\<lparr>form_event_date := []\<rparr>"
  let ?p1 = "hd (posts campus)"
  have undated: "form_type ?undated = ''event'' \<and> form_event_date ?undated = []"
    by (simp add: hackathon_def)
  have rule: "\<forall>p \<in> set (posts campus). event_date_rule p"
    by (simp add: campus_def event_date_rule_def)
  note U = event_date_iff_event [of ?undated "Some fay" "(''p5'', 20)" None campus "Some ?p1",
      THEN conjunct1, THEN mp, OF undated]
  note N = event_date_iff_event [of notice "Some fay" "(''p5'', 20)" None campus "Some ?p1",
      THEN conjunct2, THEN conjunct2, THEN conjunct2, THEN mp, OF rule]
  note H = event_date_iff_event [of hackathon "Some fay" "(''p5'', 20)" None campus "Some ?p1",
      THEN conjunct2, THEN conjunct2, THEN conjunct2, THEN mp, OF rule]
  have create_undated: "handleCreatePost ?undated (Some fay) (''p5'', 20) None campus
     = (ToastError ''Event date is required for events'', campus)"
    using U by (simp add: prod_eq_iff handleCreatePost_def hackathon_def)
  have edit_undated: "handleEditPost ?undated (Some ?p1) None campus
     = (ToastError ''Event date is required for events'', campus)"
    using U by (simp add: prod_eq_iff handleEditPost_def hackathon_def)
  have dated: "map event_date (posts (snd (handleCreatePost hackathon (Some fay) (''p5'', 20) None campus)))
     = [None, Some ''2025-12-01T09:00'', None, Some ''2025-01-15T13:00'',
        Some ''2025-11-20T08:00'']"
    by (simp add: handleCreatePost_def new_post_def hackathon_def campus_def)
  have cleared: "map event_date (posts (snd (handleCreatePost notice (Some fay) (''p5'', 20) None campus)))
     = [None, Some ''2025-12-01T09:00'', None, Some ''2025-01-15T13:00'', None]"
    by (simp add: handleCreatePost_def new_post_def notice_def campus_def)
  from N [THEN conjunct1] have kept: "list_all event_date_rule
        (posts (snd (handleCreatePost notice (Some fay) (''p5'', 20) None campus)))"
    by (simp only: list_all_iff)
  from H [THEN conjunct2] have kept': "list_all event_date_rule
        (posts (snd (handleEditPost hackathon (Some ?p1) None campus)))"
    by (simp only: list_all_iff)
  from create_undated edit_undated dated cleared kept kept' show ?thesis by (intro conjI)
qed


subsection \<open>Admission to the Admin Panel\<close>

lemma checkAuth_found:
  assumes "keyed (users d)" "r \<in> set (users d)"
  shows "checkAuth (Inr (Some (row_id r))) d =
           (if role r \<noteq> ''admin'' then \<lparr>userProfile = None, navigate = Some ''/dashboard''\<rparr>
            else \<lparr>userProfile = Some r, navigate = None\<rparr>)"
  using eq_keyed [OF assms] by (simp add: checkAuth_def)

lemma checkAuth_missing:
  assumes "uid \<notin> row_id ` set (users d)"
  shows "checkAuth (Inr (Some uid)) d = \<lparr>userProfile = None, navigate = Some ''/''\<rparr>"
  using eq_none [OF assms] by (simp add: checkAuth_def)


text \<open>
  C9. Over a \<open>users\<close> table keyed by id, the Admin Panel admits the session of account
  \<open>uid\<close> (stores a profile and does not navigate away) if and only if \<open>users\<close> has a row
  with that id whose \<open>role\<close> is \<open>admin\<close>, and the stored profile is that row. Every other
  session stores no profile and is sent to \<open>/\<close> or to \<open>/dashboard\<close>; in particular one whose
  id is in no row of \<open>users\<close>, whatever the table \<open>admins\<close> holds, is sent to \<open>/\<close>. Without a
  stored profile, post creation writes nothing.
\<close>

theorem admin_panel_admission:
  assumes key: "keyed (users d)"
  shows "(userProfile (checkAuth (Inr (Some uid)) d) \<noteq> None
            \<longleftrightarrow> (\<exists>r \<in> set (users d). row_id r = uid \<and> role r = ''admin''))
       \<and> (\<forall>r \<in> set (users d). row_id r = uid \<and> role r = ''admin'' \<longrightarrow>
            checkAuth (Inr (Some uid)) d = \<lparr>userProfile = Some r, navigate = None\<rparr>)
       \<and> (\<not> (\<exists>r \<in> set (users d). row_id r = uid \<and> role r = ''admin'') \<longrightarrow>
            userProfile (checkAuth (Inr (Some uid)) d) = None
            \<and> navigate (checkAuth (Inr (Some uid)) d) \<in> {Some ''/'', Some ''/dashboard''})
       \<and> (uid \<notin> row_id ` set (users d) \<longrightarrow>
            checkAuth (Inr (Some uid)) d = \<lparr>userProfile = None, navigate = Some ''/''\<rparr>)
       \<and> handleCreatePost fd None gen reply d' \<in>
            {(ToastError ''Title and content are required'', d'),
             (ToastError ''Event date is required for events'', d'),
             (ToastError ''Cannot read properties of null (reading 'department')'', d')}"
proof -
  have found: "checkAuth (Inr (Some uid)) d =
           (if role r \<noteq> ''admin'' then \<lparr>userProfile = None, navigate = Some ''/dashboard''\<rparr>
            else \<lparr>userProfile = Some r, navigate = None\<rparr>)"
    if "r \<in> set (users d)" "row_id r = uid" for r
    using checkAuth_found [OF key that(1)] that(2) by simp
  have missing: "checkAuth (Inr (Some uid)) d = \<lparr>userProfile = None, navigate = Some ''/''\<rparr>"
    if "uid \<notin> row_id ` set (users d)"
    using that by (rule checkAuth_missing)
  have unique: "r = r'" if "r \<in> set (users d)" "r' \<in> set (users d)" "row_id r = uid" "row_id r' = uid" for r r'
  proof -
    from key have "inj_on row_id (set (users d))" by (simp add: keyed_def distinct_map)
    with that show ?thesis by (simp add: inj_on_def)
  qed
  have A: "userProfile (checkAuth (Inr (Some uid)) d) \<noteq> None
            \<longleftrightarrow> (\<exists>r \<in> set (users d). row_id r = uid \<and> role r = ''admin'')"
  proof (cases "uid \<in> row_id ` set (users d)")
    case False
    with missing show ?thesis by auto
  next
    case True
    then obtain r where r: "r \<in> set (users d)" "row_id r = uid" by auto
    show ?thesis
    proof (cases "role r = ''admin''")
      case True
      with found [OF r] r show ?thesis by auto
    next
      case False
      with unique [OF r(1) _ r(2)] have "\<not> (\<exists>r \<in> set (users d). row_id r = uid \<and> role r = ''admin'')"
        by blast
      with found [OF r] False show ?thesis by simp
    qed
  qed
  have B: "\<forall>r \<in> set (users d). row_id r = uid \<and> role r = ''admin'' \<longrightarrow>
            checkAuth (Inr (Some uid)) d = \<lparr>userProfile = Some r, navigate = None\<rparr>"
    using found by simp
  have C: "\<not> (\<exists>r \<in> set (users d). row_id r = uid \<and> role r = ''admin'') \<longrightarrow>
            userProfile (checkAuth (Inr (Some uid)) d) = None
            \<and> navigate (checkAuth (Inr (Some uid)) d) \<in> {Some ''/'', Some ''/dashboard''}"
  proof (cases "uid \<in> row_id ` set (users d)")
    case False
    with missing show ?thesis by simp
  next
    case True
    then obtain r where r: "r \<in> set (users d)" "row_id r = uid" by auto
    show ?thesis
    proof
      assume "\<not> (\<exists>r \<in> set (users d). row_id r = uid \<and> role r = ''admin'')"
      with r have "role r \<noteq> ''admin''" by blast
      with found [OF r] show "userProfile (checkAuth (Inr (Some uid)) d) = None
            \<and> navigate (checkAuth (Inr (Some uid)) d) \<in> {Some ''/'', Some ''/dashboard''}"
        by simp
    qed
  qed
  have D: "uid \<notin> row_id ` set (users d) \<longrightarrow>
            checkAuth (Inr (Some uid)) d = \<lparr>userProfile = None, navigate = Some ''/''\<rparr>"
    using missing by simp
  have E: "handleCreatePost fd None gen reply d' \<in>
            {(ToastError ''Title and content are required'', d'),
             (ToastError ''Event date is required for events'', d'),
             (ToastError ''Cannot read properties of null (reading 'department')'', d')}"
    by (simp add: handleCreatePost_def)
  from A B C D E show ?thesis by (intro conjI)
qed

text \<open>
  On the example store \<open>u4\<close> is admitted, the approved admin \<open>a1\<close> of the table \<open>admins\<close>
  is sent to \<open>/\<close>, and the student \<open>u1\<close> gets no profile.
\<close>

theorem admin_panel_admission_witness:
  "keyed (users campus)
   \<and> checkAuth (Inr (Some ''u4'')) campus = \<lparr>userProfile = Some fay, navigate = None\<rparr>
   \<and> checkAuth (Inr (Some ''a1'')) campus = \<lparr>userProfile = None, navigate = Some ''/''\<rparr>
   \<and> userProfile (checkAuth (Inr (Some ''u1'')) campus) = None"
proof -
  have key: "keyed (users campus)" by (simp add: campus_def keyed_def)
  note A = admin_panel_admission [OF key]
  have "fay \<in> set (users campus) \<and> row_id fay = ''u4'' \<and> role fay = ''admin''"
    by (simp add: campus_def fay_def)
  with A [of "''u4''", THEN conjunct2, THEN conjunct1]
  have u4: "checkAuth (Inr (Some ''u4'')) campus = \<lparr>userProfile = Some fay, navigate = None\<rparr>"
    by blast
  have "''a1'' \<notin> row_id ` set (users campus)" by (simp add: campus_def)
  with A [of "''a1''", THEN conjunct2, THEN conjunct2, THEN conjunct2, THEN conjunct1]
  have a1: "checkAuth (Inr (Some ''a1'')) campus = \<lparr>userProfile = None, navigate = Some ''/''\<rparr>"
    by blast
  have "\<not> (\<exists>r \<in> set (users campus). row_id r = ''u1'' \<and> role r = ''admin'')"
    by (simp add: campus_def)
  with A [of "''u1''", THEN conjunct2, THEN conjunct2, THEN conjunct1]
  have u1: "userProfile (checkAuth (Inr (Some ''u1'')) campus) = None"
    by blast
  from key u4 a1 u1 show ?thesis by (intro conjI)
qed


subsection \<open>Comments\<close>

lemma trim_empty_iff: "trim s = [] \<longleftrightarrow> (\<forall>c \<in> set s. is_space c)"
proof
  assume "\<forall>c \<in> set s. is_space c"
  then have none: "dropWhile is_space s = []" by (simp only: dropWhile_eq_Nil_conv)
  show "trim s = []" unfolding trim_def none by simp
next
  assume "trim s = []"
  then have "dropWhile is_space (rev (dropWhile is_space s)) = []"
    by (simp add: trim_def)
  then have "\<forall>c \<in> set (rev (dropWhile is_space s)). is_space c"
    by (simp only: dropWhile_eq_Nil_conv)
  then have spaces: "\<forall>c \<in> set (dropWhile is_space s). is_space c" by simp
  have "dropWhile is_space s = []"
  proof (rule ccontr)
    assume ne: "dropWhile is_space s \<noteq> []"
    then have "\<not> is_space (hd (dropWhile is_space s))" by (rule hd_dropWhile)
    moreover from ne have "hd (dropWhile is_space s) \<in> set (dropWhile is_space s)" by simp
    ultimately show False using spaces by blast
  qed
  then show "\<forall>c \<in> set s. is_space c" by (simp only: dropWhile_eq_Nil_conv)
qed

lemma trim_middle:
  "dropWhile is_space s = trim s @ rev (takeWhile is_space (rev (dropWhile is_space s)))"
proof -
  let ?m = "dropWhile is_space s"
  have "rev (takeWhile is_space (rev ?m) @ dropWhile is_space (rev ?m)) = rev (rev ?m)"
    by (simp only: takeWhile_dropWhile_id)
  then have "rev (dropWhile is_space (rev ?m)) @ rev (takeWhile is_space (rev ?m)) = ?m"
    by (simp only: rev_append rev_rev_ident)
  then show ?thesis by (simp add: trim_def)
qed

lemma trim_decomposition:
  "s = takeWhile is_space s @ trim s @ rev (takeWhile is_space (rev (dropWhile is_space s)))"
proof -
  have "takeWhile is_space s @ dropWhile is_space s
      = takeWhile is_space s
        @ trim s @ rev (takeWhile is_space (rev (dropWhile is_space s)))"
    by (rule arg_cong [where f = "\<lambda>x. takeWhile is_space s @ x"]) (rule trim_middle)
  then show ?thesis by (simp only: takeWhile_dropWhile_id)
qed

lemma trim_ends:
  assumes "trim s \<noteq> []"
  shows "\<not> is_space (hd (trim s)) \<and> \<not> is_space (last (trim s))"
proof -
  let ?m = "dropWhile is_space s"
  from assms have tail: "dropWhile is_space (rev ?m) \<noteq> []" by (simp add: trim_def)
  then have "\<not> is_space (hd (dropWhile is_space (rev ?m)))" by (rule hd_dropWhile)
  with tail have right: "\<not> is_space (last (trim s))" by (simp add: trim_def last_rev)
  have "hd ?m = hd (trim s @ rev (takeWhile is_space (rev ?m)))"
    by (rule arg_cong [where f = hd]) (rule trim_middle)
  also from assms have "\<dots> = hd (trim s)" by (rule hd_append2)
  finally have left: "hd ?m = hd (trim s)" .
  have "?m \<noteq> []"
  proof
    assume none: "?m = []"
    have "trim s = []" unfolding trim_def none by simp
    with assms show False by simp
  qed
  then have "\<not> is_space (hd ?m)" by (rule hd_dropWhile)
  with left right show ?thesis by simp
qed

lemma handleAddComment_cases:
  "(\<exists>m. handleAddComment newComment pid profile gen reply d = (ToastError m, d))
   \<or> (\<exists>p. profile = Some p \<and> trim newComment \<noteq> []
        \<and> handleAddComment newComment pid profile gen reply d =
            (ToastSuccess ''Comment added successfully!'',
             d\<lparr>comments := comments d @ [new_comment newComment pid p gen]\<rparr>))"
  unfolding handleAddComment_def
  by (cases profile; cases reply) simp_all

lemma accepted_comment:
  assumes "fst (handleAddComment newComment pid profile gen reply d) = ToastSuccess m"
  shows "trim newComment \<noteq> []
       \<and> (\<exists>row. comments (snd (handleAddComment newComment pid profile gen reply d))
                  = comments d @ [row]
            \<and> comment_content row = trim newComment)"
  using handleAddComment_cases [of newComment pid profile gen reply d]
proof (elim disjE exE conjE)
  fix e assume "handleAddComment newComment pid profile gen reply d = (ToastError e, d)"
  with assms show ?thesis by simp
next
  fix p
  assume ne: "trim newComment \<noteq> []"
    and run: "handleAddComment newComment pid profile gen reply d =
            (ToastSuccess ''Comment added successfully!'',
             d\<lparr>comments := comments d @ [new_comment newComment pid p gen]\<rparr>)"
  have "comment_content (new_comment newComment pid p gen) = trim newComment"
    by (simp add: new_comment_def)
  with ne show ?thesis unfolding run by simp
qed

lemma refused_comment:
  assumes "fst (handleAddComment newComment pid profile gen reply d)
            \<noteq> ToastSuccess ''Comment added successfully!''"
  shows "snd (handleAddComment newComment pid profile gen reply d) = d"
  using handleAddComment_cases [of newComment pid profile gen reply d]
proof (elim disjE exE conjE)
  fix e assume "handleAddComment newComment pid profile gen reply d = (ToastError e, d)"
  then show ?thesis by simp
next
  fix p
  assume "handleAddComment newComment pid profile gen reply d =
            (ToastSuccess ''Comment added successfully!'',
             d\<lparr>comments := comments d @ [new_comment newComment pid p gen]\<rparr>)"
  with assms show ?thesis by simp
qed


text \<open>
  C10. A comment that is empty or consists of white space only is refused with
  \<open>Comment cannot be empty\<close> before any insert, and the store is unchanged. When a
  submission is accepted, \<open>comments\<close> grows by one row whose content is the trimmed input:
  the input without the white space before and after it, a non-empty string that neither
  starts nor ends with white space. Whenever the handler does not report success the
  store is unchanged.
\<close>

theorem comment_trimmed:
  "((\<forall>c \<in> set newComment. is_space c) \<longrightarrow>
       handleAddComment newComment pid profile gen reply d
         = (ToastError ''Comment cannot be empty'', d))
   \<and> (fst (handleAddComment newComment pid profile gen reply d) = ToastSuccess m \<longrightarrow>
        (\<exists>row. comments (snd (handleAddComment newComment pid profile gen reply d))
                  = comments d @ [row]
           \<and> comment_content row = trim newComment)
        \<and> trim newComment \<noteq> []
        \<and> \<not> is_space (hd (trim newComment)) \<and> \<not> is_space (last (trim newComment))
        \<and> (\<exists>before after. newComment = before @ trim newComment @ after
              \<and> (\<forall>c \<in> set before. is_space c) \<and> (\<forall>c \<in> set after. is_space c)))
   \<and> (fst (handleAddComment newComment pid profile gen reply d)
          \<noteq> ToastSuccess ''Comment added successfully!'' \<longrightarrow>
        snd (handleAddComment newComment pid profile gen reply d) = d)"
proof (intro conjI impI)
  assume "\<forall>c \<in> set newComment. is_space c"
  then have "trim newComment = []" by (simp only: trim_empty_iff)
  then show "handleAddComment newComment pid profile gen reply d
         = (ToastError ''Comment cannot be empty'', d)"
    by (simp add: handleAddComment_def)
next
  assume ok: "fst (handleAddComment newComment pid profile gen reply d) = ToastSuccess m"
  from accepted_comment [OF ok]
  show "\<exists>row. comments (snd (handleAddComment newComment pid profile gen reply d))
                  = comments d @ [row]
           \<and> comment_content row = trim newComment"
    and ne: "trim newComment \<noteq> []"
    by blast+
  from trim_ends [OF ne]
  show "\<not> is_space (hd (trim newComment))" "\<not> is_space (last (trim newComment))"
    by simp_all
  show "\<exists>before after. newComment = before @ trim newComment @ after
              \<and> (\<forall>c \<in> set before. is_space c) \<and> (\<forall>c \<in> set after. is_space c)"
  proof (intro exI conjI)
    show "newComment = takeWhile is_space newComment @ trim newComment
            @ rev (takeWhile is_space (rev (dropWhile is_space newComment)))"
      by (rule trim_decomposition)
    show "\<forall>c \<in> set (takeWhile is_space newComment). is_space c"
      by (blast dest: set_takeWhileD)
    show "\<forall>c \<in> set (rev (takeWhile is_space (rev (dropWhile is_space newComment)))).
            is_space c"
      unfolding set_rev by (blast dest: set_takeWhileD)
  qed
next
  assume "fst (handleAddComment newComment pid profile gen reply d)
            \<noteq> ToastSuccess ''Comment added successfully!''"
  then show "snd (handleAddComment newComment pid profile gen reply d) = d"
    by (rule refused_comment)
qed


text \<open>A blank comment and a padded one on the example store.\<close>

theorem comment_trimmed_witness:
  "handleAddComment [CHR '' '', CHR 0x09, CHR '' ''] ''p1'' (Some fay) (''c2'', 21) None campus
     = (ToastError ''Comment cannot be empty'', campus)
   \<and> fst (handleAddComment ''  Nice post '' ''p1'' (Some fay) (''c2'', 21) None campus)
     = ToastSuccess ''Comment added successfully!''
   \<and> trim ''  Nice post '' = ''Nice post''
   \<and> map comment_content
        (comments (snd (handleAddComment ''  Nice post '' ''p1'' (Some fay) (''c2'', 21) None campus)))
     = [''Thanks'', ''Nice post'']"
proof -
  let ?blank = "[CHR '' '', CHR 0x09, CHR '' '']"
  let ?run = "handleAddComment ''  Nice post '' ''p1'' (Some fay) (''c2'', 21) None campus"
  have blank: "\<forall>c \<in> set ?blank. is_space c" by (simp add: is_space_def)
  have trimmed: "trim ''  Nice post '' = ''Nice post''"
    by (simp add: trim_def is_space_def)
  have ok: "fst ?run = ToastSuccess ''Comment added successfully!''"
    by (simp add: handleAddComment_def trimmed)
  note B = comment_trimmed [of ?blank "''p1''" "Some fay" "(''c2'', 21)" None campus,
      THEN conjunct1, THEN mp, OF blank]
  note T = comment_trimmed [of "''  Nice post ''" "''p1''" "Some fay" "(''c2'', 21)" None campus,
      THEN conjunct2, THEN conjunct1, THEN mp, OF ok]
  from T obtain row where "comments (snd ?run) = comments campus @ [row]"
    and "comment_content row = trim ''  Nice post ''"
    by blast
  then have "map comment_content (comments (snd ?run)) = [''Thanks'', ''Nice post'']"
    by (simp add: trimmed campus_def)
  with B ok trimmed show ?thesis by (intro conjI)
qed

subsection \<open>What a student sees\<close>

lemma truncate_with_comments: "post_row.truncate (with_comments d embedded p) = p"
  by (cases p) (simp add: with_comments_def post_row.defs)

lemma post_department_with_comments:
  "post_department (with_comments d embedded p) = post_department p"
  by (cases p) (simp add: with_comments_def post_row.defs)

lemma truncate_views:
  "map (post_row.truncate \<circ> with_comments d embedded) ps = ps"
  by (induction ps) (simp_all add: truncate_with_comments)

lemma filter_views:
  "filter (\<lambda>post. post_department post = sel) (map (with_comments d embedded) ps)
     = map (with_comments d embedded) (filter (\<lambda>p. post_department p = sel) ps)"
  by (induction ps) (simp_all add: post_department_with_comments)

lemma Dashboard_feed:
  "map post_row.truncate (filteredPosts sel (Dashboard_fetchPosts d)) =
     (if sel = ''all'' then order_desc post_created_at (eq status ''active'' (posts d))
      else filter (\<lambda>p. post_department p = sel)
             (order_desc post_created_at (eq status ''active'' (posts d))))"
  by (simp add: filteredPosts_def Dashboard_fetchPosts_def filter_views truncate_views)

lemma Archive_user_view:
  "map post_row.truncate (Archive_fetchPosts user p d) =
     order_desc post_created_at
       (eq post_department (department p) (eq status ''archived'' (posts d)))"
  by (simp add: Archive_fetchPosts_def Let_def truncate_views)


text \<open>
  C6, as stated, fails for the general feed: \<open>u1\<close> is a student of CCS (the Archive page
  gives the session the kind \<open>user\<close>), and the feed of the Dashboard, with the department
  selector at its initial value \<open>all\<close>, shows the active post \<open>p2\<close> of CED.
\<close>

theorem feed_shows_other_departments:
  "userType (Archive_checkAuth (Inr (Some ''u1'')) campus) = Some user
   \<and> map department (eq row_id ''u1'' (users campus)) = [''CCS'']
   \<and> map post_id (filteredPosts ''all'' (Dashboard_fetchPosts campus)) = [''p2'', ''p1'']
   \<and> map post_department (filteredPosts ''all'' (Dashboard_fetchPosts campus))
       = [''CED'', ''CCS'']
   \<and> map status (filteredPosts ''all'' (Dashboard_fetchPosts campus))
       = [''active'', ''active'']"
  by (simp add: Archive_checkAuth_def filteredPosts_def Dashboard_fetchPosts_def
      with_comments_def post_row.defs eq_def order_desc_def campus_def)

text \<open>
  C6, amended. For a viewer of tier \<open>user\<close> the archive view holds exactly the archived
  posts of the viewer's own department. The general feed holds exactly the active posts
  of all departments while the selector is \<open>all\<close>, and exactly the active posts of the
  selected department otherwise; the viewer's own department plays no part in it.
\<close>

theorem user_post_views:
  "set (map post_row.truncate (Archive_fetchPosts user p d))
     = {q \<in> set (posts d). status q = ''archived'' \<and> post_department q = department p}
   \<and> set (map post_row.truncate (filteredPosts sel (Dashboard_fetchPosts d)))
     = {q \<in> set (posts d). status q = ''active'' \<and> (sel = ''all'' \<or> post_department q = sel)}"
proof
  show "set (map post_row.truncate (Archive_fetchPosts user p d))
     = {q \<in> set (posts d). status q = ''archived'' \<and> post_department q = department p}"
    unfolding Archive_user_view set_order_desc set_eq by blast
  show "set (map post_row.truncate (filteredPosts sel (Dashboard_fetchPosts d)))
     = {q \<in> set (posts d). status q = ''active'' \<and> (sel = ''all'' \<or> post_department q = sel)}"
  proof (cases "sel = ''all''")
    case True
    then show ?thesis unfolding Dashboard_feed by (simp add: set_order_desc set_eq)
  next
    case False
    then show ?thesis unfolding Dashboard_feed by (auto simp: set_order_desc set_eq)
  qed
qed


subsection \<open>Registration of an admin\<close>

lemma char_of_eq_iff':
  "c = char_of n \<longleftrightarrow> take_bit 8 n = (of_char c :: nat)"
  using char_of_eq_iff [of n c] by auto

lemmas lower_char_eval = toLowerCase_def lower_char_def char_of_eq_iff char_of_eq_iff'

lemma toLowerCase_accented:
  "toLowerCase [CHR 0xC9, CHR 0xD7, CHR 0xDE, CHR 0xDF, CHR ''Z'', CHR ''['']
     = [CHR 0xE9, CHR 0xD7, CHR 0xFE, CHR 0xDF, CHR ''z'', CHR ''['']"
  by (simp add: lower_char_eval)












end
